theory Spec2Isabelle
  imports Complex_Main "HOL-Library.Word"
begin

unbundle bit_operations_syntax

section \<open>Shared conventions\<close>

text \<open>
  WordGrinder's display layer exists once per native library. Two of these back ends are
  modelled here, each from its own file: the SDL back end (\<^verbatim>\<open>src/c/arch/sdl/dpy.c\<close>) and
  the GLFW back end (\<^verbatim>\<open>src/c/arch/glfw/main.c\<close>). Both files define the same C names
  (\<^verbatim>\<open>dpy_getchar\<close>, \<^verbatim>\<open>dpy_getkeyname\<close>, ...), so every constant below carries
  its back end as a prefix.

  Only the code the C preprocessor keeps is modelled: the blocks between \<^verbatim>\<open>#if 0\<close> and
  \<^verbatim>\<open>#endif\<close> in the GLFW file are not part of the program.

  \<^verbatim>\<open>uni_t\<close> is declared in \<^verbatim>\<open>globals.h\<close> as a C \<^verbatim>\<open>int\<close>; it and every other
  \<^verbatim>\<open>int\<close> that takes part in bit operations is a 32-bit word: \<open>-\<close> and \<open>+\<close> wrap,
  \<open>\<le>s\<close> and \<open><s\<close> compare as two's complement, \<open>sint\<close> reads the signed value.
\<close>

type_synonym uni_t = "32 word"

definition VKM_SHIFT :: "32 word" where
  "VKM_SHIFT = 0x10000"

definition VKM_CTRL :: "32 word" where
  "VKM_CTRL = 0x20000"

definition VKM_CTRLASCII :: "32 word" where
  "VKM_CTRLASCII = 0x40000"

definition INT_MAX :: "32 word" where
  "INT_MAX = 0x7fffffff"

subsection \<open>What \<^verbatim>\<open>sprintf\<close> writes\<close>

text \<open>
  A byte as a character, and the conversions \<^verbatim>\<open>%c\<close> and \<^verbatim>\<open>%d\<close> of the C library.
  \<^verbatim>\<open>%c\<close> writes its \<^verbatim>\<open>int\<close> argument converted to \<^verbatim>\<open>unsigned char\<close>; when that byte
  is zero the C string the caller reads back ends there. \<^verbatim>\<open>%d\<close> writes the signed decimal
  numeral.
\<close>

definition byte_char :: "8 word \<Rightarrow> char" where
  "byte_char b =
     Char (bit b 0) (bit b 1) (bit b 2) (bit b 3) (bit b 4) (bit b 5) (bit b 6) (bit b 7)"

definition fmt_c :: "32 word \<Rightarrow> string" where
  "fmt_c v = (let b = (ucast v :: 8 word) in if b = 0 then [] else [byte_char b])"

function show_nat :: "nat \<Rightarrow> string" where
  "show_nat n =
     (if n < 10 then [byte_char (of_nat (48 + n))]
      else show_nat (n div 10) @ [byte_char (of_nat (48 + n mod 10))])"
  by pat_completeness auto
termination
  by (relation "measure id") auto

definition fmt_d :: "32 word \<Rightarrow> string" where
  "fmt_d v = (if sint v < 0 then CHR ''-'' # show_nat (nat (- sint v)) else show_nat (nat (sint v)))"

section \<open>The SDL back end\<close>

subsection \<open>Constants\<close>

text \<open>
  The two sentinels the file defines. It defines no third one: there is no
  \<^verbatim>\<open>SDLK_QUIT\<close>.
\<close>

definition SDLK_RESIZE :: "32 word" where
  "SDLK_RESIZE = 0x80000"

definition SDLK_TIMEOUT :: "32 word" where
  "SDLK_TIMEOUT = 0x80001"

text \<open>
  The key codes and modifier masks come from SDL2's \<^verbatim>\<open>SDL_keycode.h\<close>, which the file
  includes. A key without a character has the code \<^verbatim>\<open>scancode | (1 << 30)\<close>; the others
  have their character. \<^verbatim>\<open>KMOD_CTRL\<close> is \<^verbatim>\<open>KMOD_LCTRL | KMOD_RCTRL\<close> and
  \<^verbatim>\<open>KMOD_SHIFT\<close> is \<^verbatim>\<open>KMOD_LSHIFT | KMOD_RSHIFT\<close>; the modifier field is a
  \<^verbatim>\<open>Uint16\<close>.
\<close>

definition SDLK_BACKSPACE :: "32 word" where
  "SDLK_BACKSPACE = 0x08"

definition SDLK_TAB :: "32 word" where
  "SDLK_TAB = 0x09"

definition SDLK_RETURN :: "32 word" where
  "SDLK_RETURN = 0x0D"

definition SDLK_ESCAPE :: "32 word" where
  "SDLK_ESCAPE = 0x1B"

definition SDLK_DELETE :: "32 word" where
  "SDLK_DELETE = 0x7F"

definition SDLK_F1 :: "32 word" where
  "SDLK_F1 = 0x4000003A"

definition SDLK_INSERT :: "32 word" where
  "SDLK_INSERT = 0x40000049"

definition SDLK_HOME :: "32 word" where
  "SDLK_HOME = 0x4000004A"

definition SDLK_PAGEUP :: "32 word" where
  "SDLK_PAGEUP = 0x4000004B"

definition SDLK_END :: "32 word" where
  "SDLK_END = 0x4000004D"

definition SDLK_PAGEDOWN :: "32 word" where
  "SDLK_PAGEDOWN = 0x4000004E"

definition SDLK_RIGHT :: "32 word" where
  "SDLK_RIGHT = 0x4000004F"

definition SDLK_LEFT :: "32 word" where
  "SDLK_LEFT = 0x40000050"

definition SDLK_DOWN :: "32 word" where
  "SDLK_DOWN = 0x40000051"

definition SDLK_UP :: "32 word" where
  "SDLK_UP = 0x40000052"

definition SDLK_F24 :: "32 word" where
  "SDLK_F24 = 0x40000073"

definition KMOD_SHIFT :: "16 word" where
  "KMOD_SHIFT = 0x0003"

definition KMOD_CTRL :: "16 word" where
  "KMOD_CTRL = 0x00C0"

subsection \<open>Events\<close>

text \<open>
  What \<^verbatim>\<open>SDL_WaitEventTimeout\<close> can hand to the loop of \<^verbatim>\<open>dpy_getchar\<close>: the three
  event types its \<^verbatim>\<open>switch\<close> names, and every other type. A text event carries its
  bytes (\<^verbatim>\<open>e.text.text\<close>), a key event its key code (\<^verbatim>\<open>e.key.keysym.sym\<close>) and its
  modifier state (\<^verbatim>\<open>e.key.keysym.mod\<close>).
\<close>

datatype SDL_Event =
    SDL_QUIT
  | SDL_TEXTINPUT string
  | SDL_KEYDOWN "32 word" "16 word"
  | SDL_OTHER

text \<open>
  \<^verbatim>\<open>toupper\<close> of the C library in the C locale. The file calls it only on codes from
  \<^verbatim>\<open>0x20\<close> to \<^verbatim>\<open>0x7f\<close>.
\<close>

definition toupper :: "32 word \<Rightarrow> 32 word" where
  "toupper ch = (if 0x61 \<le>s ch \<and> ch \<le>s 0x7A then ch - 0x20 else ch)"

subsection \<open>\<^verbatim>\<open>dpy_getchar\<close>\<close>

text \<open>
  The statements from the label \<^verbatim>\<open>check_shift\<close> to the \<^verbatim>\<open>return\<close>: the shift flag is
  or-ed into \<^verbatim>\<open>key\<close>, then \<^verbatim>\<open>key\<close> is negated and returned.
\<close>

definition check_shift :: "16 word \<Rightarrow> uni_t \<Rightarrow> uni_t" where
  "check_shift kmod key = - (if kmod AND KMOD_SHIFT \<noteq> 0 then key OR VKM_SHIFT else key)"

text \<open>
  The case \<^verbatim>\<open>SDL_KEYDOWN\<close>. \<open>None\<close> is the \<^verbatim>\<open>break\<close> that leaves the \<^verbatim>\<open>switch\<close>
  without returning, so that the loop goes on waiting; \<open>Some\<close> is a \<^verbatim>\<open>return\<close>.
\<close>

definition sdl_keydown :: "32 word \<Rightarrow> 16 word \<Rightarrow> uni_t option" where
  "sdl_keydown ksym kmod =
     (if 0x20 \<le>s ksym \<and> ksym <s 0x80 then
        (if kmod AND KMOD_CTRL \<noteq> 0 then
           (let key = toupper ksym in
            if key = 0x20 then Some (check_shift kmod (- (VKM_CTRLASCII OR 0)))
            else if 0x41 \<le>s key \<and> key \<le>s 0x5A
              then Some (check_shift kmod ((key AND 0x1f) OR VKM_CTRLASCII))
            else None)
         else None)
      else Some (check_shift kmod (if kmod AND KMOD_CTRL \<noteq> 0 then ksym OR VKM_CTRL else ksym)))"

text \<open>
  The whole \<^verbatim>\<open>switch\<close>. \<^verbatim>\<open>readu8\<close> is the repository's UTF-8 decoder; its file is not
  among the sources, so it is a parameter.
\<close>

fun sdl_event :: "(string \<Rightarrow> uni_t) \<Rightarrow> SDL_Event \<Rightarrow> uni_t option" where
  "sdl_event readu8 SDL_QUIT = None"
| "sdl_event readu8 (SDL_TEXTINPUT txt) =
     (let key = readu8 txt in if key = 0 then None else Some key)"
| "sdl_event readu8 (SDL_KEYDOWN ksym kmod) = sdl_keydown ksym kmod"
| "sdl_event readu8 SDL_OTHER = None"

text \<open>
  The loop. Its environment is the list of what each iteration meets: the value
  \<^verbatim>\<open>SDL_GetTicks\<close> returns (a \<^verbatim>\<open>Uint32\<close> stored into an \<^verbatim>\<open>int\<close>), and what
  \<^verbatim>\<open>SDL_WaitEventTimeout\<close> then delivers (\<open>None\<close> when it returns 0). The result is
  \<open>None\<close> when the iterations listed are used up and the function has not returned:
  it is still waiting.
\<close>

type_synonym sdl_env = "(32 word \<times> SDL_Event option) list"

fun sdl_getchar_loop :: "(string \<Rightarrow> uni_t) \<Rightarrow> 32 word \<Rightarrow> sdl_env \<Rightarrow> uni_t option" where
  "sdl_getchar_loop readu8 expiry_ms [] = None"
| "sdl_getchar_loop readu8 expiry_ms ((now_ms, w) # rest) =
     (if expiry_ms \<le>s now_ms then Some 0
      else (case w of
              None \<Rightarrow> sdl_getchar_loop readu8 expiry_ms rest
            | Some e \<Rightarrow>
                (case sdl_event readu8 e of
                   Some key \<Rightarrow> Some key
                 | None \<Rightarrow> sdl_getchar_loop readu8 expiry_ms rest)))"

text \<open>
  The conversion of a \<^verbatim>\<open>double\<close> to an \<^verbatim>\<open>int\<close> drops the fraction. The timeout is a
  real number here: rounding of the floating-point product is not modelled, and a value
  outside the range of \<^verbatim>\<open>int\<close>, which C leaves undefined, wraps.
\<close>

definition double_to_int :: "real \<Rightarrow> 32 word" where
  "double_to_int r = word_of_int (if 0 \<le> r then \<lfloor>r\<rfloor> else \<lceil>r\<rceil>)"

text \<open>
  \<open>ticks0\<close> is the value of the first call of \<^verbatim>\<open>SDL_GetTicks\<close>, in the initialiser of
  \<^verbatim>\<open>expiry_ms\<close>. The statement \<^verbatim>\<open>return SDLK_TIMEOUT\<close> after the loop cannot be
  reached, since the loop has no exit but its \<^verbatim>\<open>return\<close>s.
\<close>

definition sdl_dpy_getchar :: "(string \<Rightarrow> uni_t) \<Rightarrow> real \<Rightarrow> 32 word \<Rightarrow> sdl_env \<Rightarrow> uni_t option" where
  "sdl_dpy_getchar readu8 timeout ticks0 env =
     (let expiry_ms = (if timeout = - 1 then INT_MAX
                       else double_to_int (real_of_int (uint ticks0) + timeout * 1000))
      in sdl_getchar_loop readu8 expiry_ms env)"

subsection \<open>\<^verbatim>\<open>dpy_getkeyname\<close>\<close>

text \<open>The second \<^verbatim>\<open>switch\<close>, which picks the name of a key, in the order of its cases.\<close>

definition sdl_template :: "32 word \<Rightarrow> string option" where
  "sdl_template key =
     (if key = SDLK_DOWN then Some ''DOWN''
      else if key = SDLK_UP then Some ''UP''
      else if key = SDLK_LEFT then Some ''LEFT''
      else if key = SDLK_RIGHT then Some ''RIGHT''
      else if key = SDLK_HOME then Some ''HOME''
      else if key = SDLK_END then Some ''END''
      else if key = SDLK_BACKSPACE then Some ''BACKSPACE''
      else if key = SDLK_DELETE then Some ''DELETE''
      else if key = SDLK_INSERT then Some ''INSERT''
      else if key = SDLK_PAGEUP then Some ''PGDN''
      else if key = SDLK_PAGEDOWN then Some ''PGUP''
      else if key = SDLK_TAB then Some ''TAB''
      else if key = SDLK_RETURN then Some ''RETURN''
      else if key = SDLK_ESCAPE then Some ''ESCAPE''
      else None)"

text \<open>
  The constant \<^verbatim>\<open>0xfff0ffff\<close> is an \<^verbatim>\<open>unsigned int\<close>; the bits of \<^verbatim>\<open>-k\<close> it keeps are
  stored back into the \<^verbatim>\<open>int\<close> \<^verbatim>\<open>key\<close>. For the least \<^verbatim>\<open>int\<close> the negation \<^verbatim>\<open>-k\<close>
  overflows in C; here it wraps.
\<close>

definition sdl_dpy_getkeyname :: "uni_t \<Rightarrow> string" where
  "sdl_dpy_getkeyname k =
     (if - k = SDLK_RESIZE then ''KEY_RESIZE''
      else if - k = SDLK_TIMEOUT then ''KEY_TIMEOUT''
      else
        (let mods = - k; key = (- k) AND 0xfff0ffff in
         if mods AND VKM_CTRLASCII \<noteq> 0 then
           ''KEY_'' @ (if mods AND VKM_SHIFT \<noteq> 0 then ''S'' else '''') @ ''^'' @ fmt_c (key + 64)
         else
           (case sdl_template key of
              Some template \<Rightarrow>
                ''KEY_'' @ (if mods AND VKM_SHIFT \<noteq> 0 then ''S'' else '''')
                  @ (if mods AND VKM_CTRL \<noteq> 0 then ''C'' else '''') @ template
            | None \<Rightarrow>
                if SDLK_F1 \<le>s key \<and> key \<le>s SDLK_F24 then
                  ''KEY_'' @ (if mods AND VKM_SHIFT \<noteq> 0 then ''S'' else '''')
                    @ (if mods AND VKM_CTRL \<noteq> 0 then ''C'' else '''')
                    @ ''F'' @ fmt_d (key - SDLK_F1 + 1)
                else ''KEY_UNKNOWN_'' @ fmt_d (- k))))"

subsection \<open>Attributes and drawing\<close>

text \<open>
  The static variables of the SDL file that are not handles of the library. The file
  has no attribute among them.
\<close>

record sdl_state =
  sdl_screenwidth :: int
  sdl_screenheight :: int
  sdl_cursorx :: int
  sdl_cursory :: int
  sdl_cursor_shown :: bool

text \<open>The values \<^verbatim>\<open>dpy_start\<close> assigns when the library calls before them succeed.\<close>

definition sdl_started :: sdl_state where
  "sdl_started =
     \<lparr>sdl_screenwidth = 80, sdl_screenheight = 25, sdl_cursorx = 0, sdl_cursory = 0,
      sdl_cursor_shown = False\<rparr>"

text \<open>The bodies of \<^verbatim>\<open>dpy_setattr\<close> and \<^verbatim>\<open>dpy_cleararea\<close> are empty.\<close>

definition sdl_dpy_setattr :: "32 word \<Rightarrow> 32 word \<Rightarrow> sdl_state \<Rightarrow> sdl_state" where
  "sdl_dpy_setattr andmask ormask s = s"

definition sdl_dpy_cleararea :: "int \<Rightarrow> int \<Rightarrow> int \<Rightarrow> int \<Rightarrow> sdl_state \<Rightarrow> sdl_state" where
  "sdl_dpy_cleararea x1 y1 x2 y2 s = s"

text \<open>
  \<^verbatim>\<open>dpy_writechar\<close> reads and writes no static variable but the two handles it passes
  on: it encodes the character with the repository's \<^verbatim>\<open>writeu8\<close> (not among the sources,
  so a parameter) and calls \<^verbatim>\<open>FC_Draw\<close>. The result here is what \<^verbatim>\<open>FC_Draw\<close> is given:
  the two pixel coordinates and the text.
\<close>

definition sdl_dpy_writechar :: "(uni_t \<Rightarrow> string) \<Rightarrow> int \<Rightarrow> int \<Rightarrow> uni_t \<Rightarrow> int \<times> int \<times> string" where
  "sdl_dpy_writechar writeu8 x y ch = (x * 8, y * 8, writeu8 ch)"

section \<open>The GLFW back end\<close>

subsection \<open>Constants and state\<close>

definition VK_RESIZE :: "32 word" where
  "VK_RESIZE = 0x80000"

definition VK_TIMEOUT :: "32 word" where
  "VK_TIMEOUT = 0x80001"

definition VK_QUIT :: "32 word" where
  "VK_QUIT = 0x80002"

text \<open>
  \<^verbatim>\<open>struct cell\<close>: a character and an attribute byte (\<^verbatim>\<open>uint8_t\<close>). The fields are
  \<^verbatim>\<open>c\<close> and \<^verbatim>\<open>attr\<close> in the source.
\<close>

record cell =
  cell_c :: uni_t
  cell_attr :: "8 word"

text \<open>
  The file's static variables. \<^verbatim>\<open>screen\<close> is a pointer: \<open>None\<close> is the null pointer,
  \<open>Some cells\<close> an array of that many cells. The file has no statement that assigns
  \<^verbatim>\<open>screen\<close>, \<^verbatim>\<open>screenWidth\<close> or \<^verbatim>\<open>screenHeight\<close>; its drawing functions test
  \<^verbatim>\<open>screen\<close> against the null pointer and are modelled for every value of the three
  variables. Coordinates and sizes are C \<^verbatim>\<open>int\<close>s that only take part in additions,
  multiplications and comparisons; they are integers here, on the understanding that the
  sums and products of the source stay within 32 bits.
\<close>

record glfw_state =
  currentAttr :: "32 word"
  screenWidth :: int
  screenHeight :: int
  screen :: "cell list option"
  cursorx :: int
  cursory :: int
  cursorShown :: bool

text \<open>
  A store through a pointer into \<^verbatim>\<open>screen\<close>. Inside the array it replaces one cell.
  Outside the array C gives the store no meaning; the model stops there with a fault, so
  that no later step can hide it.
\<close>

datatype fault = OutOfBounds

definition store :: "cell list \<Rightarrow> int \<Rightarrow> cell \<Rightarrow> fault + cell list" where
  "store cells i v =
     (if 0 \<le> i \<and> i < int (length cells) then Inr (cells[nat i := v]) else Inl OutOfBounds)"

subsection \<open>Drawing\<close>

definition glfw_dpy_setattr :: "32 word \<Rightarrow> 32 word \<Rightarrow> glfw_state \<Rightarrow> glfw_state" where
  "glfw_dpy_setattr andmask ormask s =
     s\<lparr>currentAttr := (currentAttr s AND andmask) OR ormask\<rparr>"

text \<open>
  The assignment \<^verbatim>\<open>p->attr = currentAttr\<close> converts the \<^verbatim>\<open>int\<close> to \<^verbatim>\<open>uint8_t\<close>: it
  keeps the low eight bits.
\<close>

definition glfw_dpy_writechar :: "int \<Rightarrow> int \<Rightarrow> uni_t \<Rightarrow> glfw_state \<Rightarrow> fault + glfw_state" where
  "glfw_dpy_writechar x y ch s =
     (case screen s of
        None \<Rightarrow> Inr s
      | Some cells \<Rightarrow>
          if x < 0 \<or> x \<ge> screenWidth s then Inr s
          else if y < 0 \<or> y \<ge> screenHeight s then Inr s
          else
            (case store cells (x + y * screenWidth s)
                    \<lparr>cell_c = ch, cell_attr = ucast (currentAttr s)\<rparr> of
               Inl e \<Rightarrow> Inl e
             | Inr cells' \<Rightarrow> Inr (s\<lparr>screen := Some cells'\<rparr>)))"

text \<open>
  The inner loop of \<^verbatim>\<open>dpy_cleararea\<close>: \<open>p\<close> is the index the pointer \<^verbatim>\<open>p\<close> stands at,
  \<open>x\<close> the loop counter.
\<close>

function clear_row :: "32 word \<Rightarrow> int \<Rightarrow> int \<Rightarrow> int \<Rightarrow> cell list \<Rightarrow> fault + cell list" where
  "clear_row cur p x x2 cells =
     (if x \<le> x2 then
        (case store cells p \<lparr>cell_c = 0x20, cell_attr = ucast cur\<rparr> of
           Inl e \<Rightarrow> Inl e
         | Inr cells' \<Rightarrow> clear_row cur (p + 1) (x + 1) x2 cells')
      else Inr cells)"
  by pat_completeness auto
termination
  by (relation "measure (\<lambda>(cur, p, x, x2, cells). nat (x2 + 1 - x))") auto

text \<open>The outer loop: \<open>y\<close> is the loop counter, \<open>w\<close> is \<^verbatim>\<open>screenWidth\<close>.\<close>

function clear_rows :: "32 word \<Rightarrow> int \<Rightarrow> int \<Rightarrow> int \<Rightarrow> int \<Rightarrow> int \<Rightarrow> cell list \<Rightarrow> fault + cell list" where
  "clear_rows cur w x1 x2 y y2 cells =
     (if y \<le> y2 then
        (case clear_row cur (y * w + x1) x1 x2 cells of
           Inl e \<Rightarrow> Inl e
         | Inr cells' \<Rightarrow> clear_rows cur w x1 x2 (y + 1) y2 cells')
      else Inr cells)"
  by pat_completeness auto
termination
  by (relation "measure (\<lambda>(cur, w, x1, x2, y, y2, cells). nat (y2 + 1 - y))") auto

definition glfw_dpy_cleararea :: "int \<Rightarrow> int \<Rightarrow> int \<Rightarrow> int \<Rightarrow> glfw_state \<Rightarrow> fault + glfw_state" where
  "glfw_dpy_cleararea x1 y1 x2 y2 s =
     (case screen s of
        None \<Rightarrow> Inr s
      | Some cells \<Rightarrow>
          (case clear_rows (currentAttr s) (screenWidth s) x1 x2 y1 y2 cells of
             Inl e \<Rightarrow> Inl e
           | Inr cells' \<Rightarrow> Inr (s\<lparr>screen := Some cells'\<rparr>)))"

definition glfw_dpy_clearscreen :: "glfw_state \<Rightarrow> fault + glfw_state" where
  "glfw_dpy_clearscreen s = glfw_dpy_cleararea 0 0 (screenWidth s - 1) (screenHeight s - 1) s"


subsection \<open>The states the program reaches\<close>





subsection \<open>\<^verbatim>\<open>dpy_getchar\<close> and \<^verbatim>\<open>dpy_getkeyname\<close>\<close>

text \<open>
  GLFW hands events to the callbacks \<^verbatim>\<open>key_cb\<close> and \<^verbatim>\<open>character_cb\<close> while
  \<^verbatim>\<open>glfwWaitEvents\<close> or \<^verbatim>\<open>glfwWaitEventsTimeout\<close> runs. Both callbacks print their
  arguments and do nothing else: they write no variable that \<^verbatim>\<open>dpy_getchar\<close> reads.
\<close>

datatype GLFW_Event =
    GLFW_Key int int int int
  | GLFW_Char nat

text \<open>
  The environment of the loop, one entry for each iteration: the value of
  \<^verbatim>\<open>glfwGetTime\<close> (read only when there is a timeout) and the events that arrive during
  the wait that follows. As for SDL, \<open>None\<close> says that the function has not returned
  when the listed iterations are used up.
\<close>

type_synonym glfw_env = "(real \<times> GLFW_Event list) list"

fun glfw_getchar_loop :: "real \<Rightarrow> real \<Rightarrow> glfw_env \<Rightarrow> uni_t option" where
  "glfw_getchar_loop timeout endTime [] = None"
| "glfw_getchar_loop timeout endTime ((now, events) # rest) =
     (if timeout = - 1 then glfw_getchar_loop timeout endTime rest
      else
        (let waitTime = endTime - now in
         if waitTime < 0 then Some (- VK_TIMEOUT)
         else glfw_getchar_loop timeout endTime rest))"


text \<open>The function returns at its first statement, whatever the key.\<close>

definition glfw_dpy_getkeyname :: "uni_t \<Rightarrow> string" where
  "glfw_dpy_getkeyname k = ''KEY_TIMEOUT''"

section \<open>Evaluation and word arithmetic\<close>

declare show_nat.simps [simp del]
declare clear_row.simps [simp del]
declare clear_rows.simps [simp del]

lemmas sdl_consts =
  VKM_SHIFT_def VKM_CTRL_def VKM_CTRLASCII_def SDLK_RESIZE_def SDLK_TIMEOUT_def
  SDLK_BACKSPACE_def SDLK_TAB_def SDLK_RETURN_def SDLK_ESCAPE_def SDLK_DELETE_def
  SDLK_F1_def SDLK_INSERT_def SDLK_HOME_def SDLK_PAGEUP_def SDLK_END_def SDLK_PAGEDOWN_def
  SDLK_RIGHT_def SDLK_LEFT_def SDLK_DOWN_def SDLK_UP_def SDLK_F24_def KMOD_SHIFT_def
  KMOD_CTRL_def INT_MAX_def

lemmas sdl_eval =
  sdl_consts sdl_dpy_getkeyname_def sdl_template_def sdl_keydown_def check_shift_def
  toupper_def fmt_c_def fmt_d_def byte_char_def show_nat.simps word_sle_eq word_sless_alt

lemmas glfw_eval =
  glfw_dpy_cleararea_def glfw_dpy_writechar_def glfw_dpy_setattr_def clear_rows.simps
  clear_row.simps store_def

text \<open>A word that is not negative as a signed value has the same unsigned value.\<close>

lemma sint_nonneg_uint:
  fixes k :: "32 word"
  assumes "0 \<le> sint k"
  shows "uint k = sint k"
proof -
  have "sint k < 2 ^ 31" using sint_lt [of k] by simp
  then have "take_bit 32 (sint k) = sint k"
    using assms by (simp add: take_bit_int_eq_self)
  then show ?thesis by (simp add: uint_sint)
qed

lemma printable_unsigned:
  fixes k :: "32 word"
  assumes "0x20 \<le>s k" "k <s 0x80"
  shows "0x20 \<le> k \<and> k < 0x80"
proof -
  from assms have s: "32 \<le> sint k" "sint k < 128"
    by (simp_all add: word_sle_eq word_sless_alt)
  then have "uint k = sint k" by (simp add: sint_nonneg_uint)
  with s show ?thesis by (simp add: word_le_def word_less_def)
qed

lemma printable_mask:
  fixes k :: "32 word"
  assumes "0x20 \<le>s k" "k <s 0x80"
  shows "k AND 0x7f = k"
proof -
  have "k < 2 ^ 7" using printable_unsigned [OF assms] by simp
  then have "k AND mask 7 = k" by (rule less_mask_eq)
  then show ?thesis by (simp add: mask_eq_exp_minus_1)
qed


section \<open>The SDL event loop\<close>

text \<open>
  Once the tick count has reached \<^verbatim>\<open>expiry_ms\<close> the loop returns 0, whatever event is
  waiting.
\<close>

lemma sdl_getchar_loop_expired:
  "expiry_ms \<le>s now_ms \<Longrightarrow> sdl_getchar_loop readu8 expiry_ms ((now_ms, w) # rest) = Some 0"
  by simp

text \<open>
  Claim C1. When the deadline has passed, SDL's \<^verbatim>\<open>dpy_getchar\<close> returns 0 and not the
  negated timeout sentinel: with a timeout of 0 seconds, a tick count of 0 at both
  readings and no event, the result is 0, which differs from \<^verbatim>\<open>-SDLK_TIMEOUT\<close>.
\<close>

theorem sdl_getchar_timeout_returns_zero:
  "sdl_dpy_getchar readu8 0 0 [(0, None)] = Some 0 \<and> (0 :: 32 word) \<noteq> - SDLK_TIMEOUT"
  by (simp add: sdl_dpy_getchar_def double_to_int_def sdl_consts)

text \<open>
  Claim C2. A key-down of the space bar with Ctrl held is returned as a positive value:
  the branch for space negates \<^verbatim>\<open>key\<close> before it jumps to \<^verbatim>\<open>check_shift\<close>, where
  \<^verbatim>\<open>key\<close> is negated again. With the left Ctrl key the result is \<^verbatim>\<open>0x40000\<close>.
\<close>

theorem sdl_getchar_ctrl_space_positive:
  "sdl_dpy_getchar readu8 (- 1) 0 [(0, Some (SDL_KEYDOWN 0x20 0x0040))] = Some 0x40000
   \<and> (0 :: 32 word) <s 0x40000"
  by (simp add: sdl_dpy_getchar_def sdl_eval)

section \<open>Key-down events in the SDL loop\<close>

subsection \<open>Keys in the range of printable ASCII\<close>

text \<open>
  For a key code from \<^verbatim>\<open>0x20\<close> to \<^verbatim>\<open>0x7f\<close> the case \<^verbatim>\<open>SDL_KEYDOWN\<close> returns only
  when Ctrl is held and the key is the space bar or a letter; \<open>sdl_keydown_printable\<close>
  is the case written out. The value for a letter carries the flag \<^verbatim>\<open>VKM_CTRLASCII\<close>,
  which no key code of the range and no other flag contains.
\<close>

lemma toupper_printable_cases:
  fixes k :: "32 word"
  assumes "0x20 \<le>s k" "k <s 0x80"
  shows "toupper k = 0x20 \<longleftrightarrow> k = 0x20"
proof -
  from assms have s: "32 \<le> sint k" "sint k < 128"
    by (simp_all add: word_sle_eq word_sless_alt)
  show ?thesis
  proof (cases "0x61 \<le>s k \<and> k \<le>s 0x7A")
    case False
    then show ?thesis by (auto simp add: toupper_def)
  next
    case True
    then have r: "97 \<le> sint k" "sint k \<le> 122" by (simp_all add: word_sle_eq)
    then have "sint k \<noteq> 64" "sint k \<noteq> 32" by simp_all
    then have "k \<noteq> 64" "k \<noteq> 32" by auto
    with True show ?thesis by (simp add: toupper_def)
  qed
qed

lemma ctrlascii_flag:
  "((key AND 0x1f) OR VKM_CTRLASCII) AND VKM_CTRLASCII = VKM_CTRLASCII"
  "(((key AND 0x1f) OR VKM_CTRLASCII) OR VKM_SHIFT) AND VKM_CTRLASCII = VKM_CTRLASCII"
  "((key AND 0x1f) OR VKM_CTRLASCII) AND 0xfff0ffff = key AND 0x1f"
  "(((key AND 0x1f) OR VKM_CTRLASCII) OR VKM_SHIFT) AND 0xfff0ffff = key AND 0x1f"
  by (simp_all add: VKM_CTRLASCII_def VKM_SHIFT_def bit.conj_disj_distrib2 and.assoc)

lemma printable_no_flag:
  fixes k :: "32 word"
  assumes "0x20 \<le>s k" "k <s 0x80"
  shows "k AND VKM_CTRLASCII = 0" "(k OR VKM_SHIFT) AND VKM_CTRLASCII = 0"
    "(k OR VKM_CTRL) AND VKM_CTRLASCII = 0" "((k OR VKM_CTRL) OR VKM_SHIFT) AND VKM_CTRLASCII = 0"
proof -
  have m: "k AND 0x7f = k" by (rule printable_mask [OF assms])
  have "(k AND 0x7f) AND VKM_CTRLASCII = 0"
    by (simp add: VKM_CTRLASCII_def and.assoc)
  with m show a: "k AND VKM_CTRLASCII = 0" by simp
  then show "(k OR VKM_SHIFT) AND VKM_CTRLASCII = 0"
    "(k OR VKM_CTRL) AND VKM_CTRLASCII = 0" "((k OR VKM_CTRL) OR VKM_SHIFT) AND VKM_CTRLASCII = 0"
    by (simp_all add: bit.conj_disj_distrib2) (simp_all add: sdl_consts)
qed

lemma sdl_keydown_printable:
  assumes p: "0x20 \<le>s ksym" "ksym <s 0x80"
  shows "sdl_keydown ksym kmod =
     (if kmod AND KMOD_CTRL = 0 then None
      else if ksym = 0x20 then Some (if kmod AND KMOD_SHIFT \<noteq> 0 then 0x30000 else 0x40000)
      else if 0x41 \<le>s toupper ksym \<and> toupper ksym \<le>s 0x5A
        then Some (- (if kmod AND KMOD_SHIFT \<noteq> 0
                       then ((toupper ksym AND 0x1f) OR VKM_CTRLASCII) OR VKM_SHIFT
                       else (toupper ksym AND 0x1f) OR VKM_CTRLASCII))
      else None)"
proof -
  have "toupper 0x20 = (0x20 :: 32 word)" by (simp add: toupper_def)
  then show ?thesis
    using p toupper_printable_cases [OF p]
    by (simp add: sdl_keydown_def check_shift_def Let_def VKM_CTRLASCII_def VKM_SHIFT_def)
qed

lemma sdl_keydown_printable_returned:
  assumes p: "0x20 \<le>s ksym" "ksym <s 0x80" and r: "sdl_keydown ksym kmod = Some v"
  shows "kmod AND KMOD_CTRL \<noteq> 0 \<and>
         (ksym = 0x20 \<and> (v = 0x30000 \<or> v = 0x40000) \<or>
          (- v) AND VKM_CTRLASCII = VKM_CTRLASCII \<and> (- v) AND 0xfff0ffff = toupper ksym AND 0x1f)"
  using r unfolding sdl_keydown_printable [OF p]
  by (auto simp add: ctrlascii_flag split: if_splits)

lemma sdl_keydown_printable_not_plain:
  assumes p: "0x20 \<le>s ksym" "ksym <s 0x80"
    and f: "f = 0 \<or> f = VKM_SHIFT \<or> f = VKM_CTRL \<or> f = VKM_CTRL OR VKM_SHIFT"
  shows "sdl_keydown ksym kmod \<noteq> Some (- (ksym OR f))"
proof
  assume r: "sdl_keydown ksym kmod = Some (- (ksym OR f))"
  have nf: "(ksym OR f) AND VKM_CTRLASCII = 0"
    using f printable_no_flag [OF p] by (auto simp add: or.assoc)
  from sdl_keydown_printable_returned [OF p r]
  have "ksym = 0x20 \<and> (- (ksym OR f) = 0x30000 \<or> - (ksym OR f) = 0x40000)
        \<or> (ksym OR f) AND VKM_CTRLASCII = VKM_CTRLASCII"
    by auto
  then show False
  proof
    assume "ksym = 0x20 \<and> (- (ksym OR f) = 0x30000 \<or> - (ksym OR f) = 0x40000)"
    with f show False by (auto simp add: sdl_consts)
  next
    assume "(ksym OR f) AND VKM_CTRLASCII = VKM_CTRLASCII"
    with nf show False by (simp add: VKM_CTRLASCII_def)
  qed
qed

text \<open>
  Claim C10. Let the key code of a key-down event lie in \<^verbatim>\<open>[0x20, 0x80)\<close>. Without Ctrl
  the event is consumed: the loop goes on with the next iteration as if the event had
  not come. Any negative value returned for the event comes with Ctrl held and is the
  translated one: it has the flag \<^verbatim>\<open>VKM_CTRLASCII\<close> and the control code of the letter
  as its key. In no case is the result the key code itself, negated, with or without the
  Shift and Ctrl flags. A text event whose decoded character is not 0 returns that
  character as it is.
\<close>

theorem sdl_printable_keydown_not_returned:
  assumes p: "0x20 \<le>s ksym" "ksym <s 0x80"
  shows "(kmod AND KMOD_CTRL = 0 \<longrightarrow>
            sdl_getchar_loop readu8 expiry_ms ((now_ms, Some (SDL_KEYDOWN ksym kmod)) # rest) =
              (if expiry_ms \<le>s now_ms then Some 0 else sdl_getchar_loop readu8 expiry_ms rest))
       \<and> (\<forall>v. sdl_event readu8 (SDL_KEYDOWN ksym kmod) = Some v \<and> v <s 0 \<longrightarrow>
              kmod AND KMOD_CTRL \<noteq> 0 \<and> (- v) AND VKM_CTRLASCII = VKM_CTRLASCII
              \<and> (- v) AND 0xfff0ffff = toupper ksym AND 0x1f)
       \<and> sdl_event readu8 (SDL_KEYDOWN ksym kmod) \<noteq> Some (- ksym)
       \<and> sdl_event readu8 (SDL_KEYDOWN ksym kmod) \<noteq> Some (- (ksym OR VKM_SHIFT))
       \<and> sdl_event readu8 (SDL_KEYDOWN ksym kmod) \<noteq> Some (- (ksym OR VKM_CTRL))
       \<and> sdl_event readu8 (SDL_KEYDOWN ksym kmod) \<noteq> Some (- (ksym OR VKM_CTRL OR VKM_SHIFT))
       \<and> (readu8 txt \<noteq> 0 \<longrightarrow>
            sdl_getchar_loop readu8 expiry_ms ((now_ms, Some (SDL_TEXTINPUT txt)) # rest) =
              (if expiry_ms \<le>s now_ms then Some 0 else Some (readu8 txt)))"
proof (intro conjI impI allI)
  assume "kmod AND KMOD_CTRL = 0"
  then have "sdl_keydown ksym kmod = None" by (simp add: sdl_keydown_printable [OF p])
  then show "sdl_getchar_loop readu8 expiry_ms ((now_ms, Some (SDL_KEYDOWN ksym kmod)) # rest) =
              (if expiry_ms \<le>s now_ms then Some 0 else sdl_getchar_loop readu8 expiry_ms rest)"
    by simp
next
  fix v assume a: "sdl_event readu8 (SDL_KEYDOWN ksym kmod) = Some v \<and> v <s 0"
  then have r: "sdl_keydown ksym kmod = Some v" and n: "v <s 0" by simp_all
  from n have "v \<noteq> 0x30000" "v \<noteq> 0x40000" by (auto simp add: word_sless_alt)
  with sdl_keydown_printable_returned [OF p r]
  show "kmod AND KMOD_CTRL \<noteq> 0" "(- v) AND VKM_CTRLASCII = VKM_CTRLASCII"
    "(- v) AND 0xfff0ffff = toupper ksym AND 0x1f"
    by auto
next
  show "sdl_event readu8 (SDL_KEYDOWN ksym kmod) \<noteq> Some (- ksym)"
    using sdl_keydown_printable_not_plain [OF p, of 0 kmod] by simp
  show "sdl_event readu8 (SDL_KEYDOWN ksym kmod) \<noteq> Some (- (ksym OR VKM_SHIFT))"
    using sdl_keydown_printable_not_plain [OF p, of VKM_SHIFT kmod] by simp
  show "sdl_event readu8 (SDL_KEYDOWN ksym kmod) \<noteq> Some (- (ksym OR VKM_CTRL))"
    using sdl_keydown_printable_not_plain [OF p, of VKM_CTRL kmod] by simp
  show "sdl_event readu8 (SDL_KEYDOWN ksym kmod) \<noteq> Some (- (ksym OR VKM_CTRL OR VKM_SHIFT))"
    using sdl_keydown_printable_not_plain [OF p, of "VKM_CTRL OR VKM_SHIFT" kmod] by simp
next
  assume "readu8 txt \<noteq> 0"
  then show "sdl_getchar_loop readu8 expiry_ms ((now_ms, Some (SDL_TEXTINPUT txt)) # rest) =
              (if expiry_ms \<le>s now_ms then Some 0 else Some (readu8 txt))"
    by simp
qed

theorem sdl_printable_keydown_not_returned_witness:
  "(0x20 :: 32 word) \<le>s 0x61 \<and> (0x61 :: 32 word) <s 0x80
   \<and> (0 :: 16 word) AND KMOD_CTRL = 0
   \<and> sdl_getchar_loop (\<lambda>txt. 0x61) 100
         [(0, Some (SDL_KEYDOWN 0x61 0)), (1, Some (SDL_TEXTINPUT ''a''))] = Some 0x61
   \<and> sdl_event (\<lambda>txt. 0x61) (SDL_KEYDOWN 0x61 0x0040) = Some (- 0x40001)
   \<and> (- 0x40001 :: 32 word) <s 0
   \<and> (- (- 0x40001 :: 32 word)) AND VKM_CTRLASCII = VKM_CTRLASCII
   \<and> (- (- 0x40001 :: 32 word)) AND 0xfff0ffff = toupper 0x61 AND 0x1f
   \<and> sdl_event (\<lambda>txt. 0x61) (SDL_KEYDOWN 0x61 0x0040) \<noteq> Some (- (0x61 OR VKM_CTRL))"
  using sdl_printable_keydown_not_returned
          [of "0x61" "0" "\<lambda>txt. 0x61" "100" "0" "[(1, Some (SDL_TEXTINPUT ''a''))]" "''a''"]
        sdl_printable_keydown_not_returned
          [of "0x61" "0x0040" "\<lambda>txt. 0x61" "100" "0" "[]" "''a''"]
  by (simp add: sdl_eval)

subsection \<open>Waiting without a timeout\<close>




subsection \<open>The GLFW loop\<close>

text \<open>
  The only \<^verbatim>\<open>return\<close> of GLFW's \<^verbatim>\<open>dpy_getchar\<close> is the one for the timeout: whatever
  the function returns is \<^verbatim>\<open>-VK_TIMEOUT\<close>, it returns that as soon as the time read is
  past \<^verbatim>\<open>endTime\<close>, and without a timeout it does not return.
\<close>

lemma glfw_getchar_loop_result:
  "glfw_getchar_loop timeout endTime env = Some v \<Longrightarrow> v = - VK_TIMEOUT"
  by (induction env) (auto simp add: Let_def split: if_splits)

lemma glfw_getchar_loop_expired:
  assumes "timeout \<noteq> - 1" "endTime - now < 0"
  shows "glfw_getchar_loop timeout endTime ((now, events) # rest) = Some (- VK_TIMEOUT)"
  using assms by simp


subsection \<open>A key-down while waiting without a timeout\<close>







section \<open>Properties of the SDL key names\<close>

text \<open>
  The names of the two sentinels the SDL file defines, and the name of the magnitude
  \<^verbatim>\<open>0x80002\<close>, which the GLFW file calls \<^verbatim>\<open>VK_QUIT\<close> and the SDL file does not know:
  its bit \<^verbatim>\<open>0x80000\<close> is masked off, the remaining key 2 is in no table, and the name is
  that of an unknown key.
\<close>

lemma sdl_getkeyname_resize: "sdl_dpy_getkeyname (- SDLK_RESIZE) = ''KEY_RESIZE''"
  by (simp add: sdl_eval)

lemma sdl_getkeyname_timeout: "sdl_dpy_getkeyname (- SDLK_TIMEOUT) = ''KEY_TIMEOUT''"
  by (simp add: sdl_eval)

lemma sdl_getkeyname_0x80002: "sdl_dpy_getkeyname (- 0x80002) = ''KEY_UNKNOWN_524290''"
  by (simp add: sdl_eval)

text \<open>
  Claim C4. The GLFW function returns \<^verbatim>\<open>"KEY_TIMEOUT"\<close> at its first statement,
  whatever the key: it names the negated sentinels \<^verbatim>\<open>VK_RESIZE\<close> and \<^verbatim>\<open>VK_QUIT\<close>
  of its own file \<^verbatim>\<open>"KEY_TIMEOUT"\<close> too, though neither of them is the timeout
  sentinel.
\<close>

theorem glfw_getkeyname_stub_misnames:
  "glfw_dpy_getkeyname (- VK_RESIZE) = ''KEY_TIMEOUT''
   \<and> glfw_dpy_getkeyname (- VK_QUIT) = ''KEY_TIMEOUT''
   \<and> - VK_RESIZE \<noteq> - VK_TIMEOUT \<and> - VK_QUIT \<noteq> - VK_TIMEOUT"
  by (simp add: glfw_dpy_getkeyname_def VK_RESIZE_def VK_QUIT_def VK_TIMEOUT_def)

text \<open>
  Claim C7. What \<^verbatim>\<open>dpy_getchar\<close> returns for a key-down, given to
  \<^verbatim>\<open>dpy_getkeyname\<close>, is the canonical name: the key A (SDL's code for it is the
  lower-case letter) with Ctrl gives \<^verbatim>\<open>"KEY_^A"\<close>, with Ctrl and Shift \<^verbatim>\<open>"KEY_S^A"\<close>, and
  the left arrow with Shift gives \<^verbatim>\<open>"KEY_SLEFT"\<close>. The modifier states are left Ctrl
  (\<^verbatim>\<open>0x0040\<close>), left Ctrl with left Shift (\<^verbatim>\<open>0x0041\<close>) and left Shift (\<^verbatim>\<open>0x0001\<close>).
\<close>

theorem sdl_keydown_name_roundtrip:
  "map_option sdl_dpy_getkeyname
     (sdl_dpy_getchar readu8 (- 1) 0 [(0, Some (SDL_KEYDOWN 0x61 0x0040))]) = Some ''KEY_^A''
   \<and> map_option sdl_dpy_getkeyname
     (sdl_dpy_getchar readu8 (- 1) 0 [(0, Some (SDL_KEYDOWN 0x61 0x0041))]) = Some ''KEY_S^A''
   \<and> map_option sdl_dpy_getkeyname
     (sdl_dpy_getchar readu8 (- 1) 0 [(0, Some (SDL_KEYDOWN SDLK_LEFT 0x0001))]) = Some ''KEY_SLEFT''"
  by (simp add: sdl_dpy_getchar_def sdl_eval)

text \<open>
  Claim C8. The SDL function writes the Ctrl flag as the letter C, not as a caret: the
  left arrow with Ctrl is returned as \<^verbatim>\<open>-(SDLK_LEFT | VKM_CTRL)\<close> and named
  \<^verbatim>\<open>"KEY_CLEFT"\<close>, and F1 with Ctrl is named \<^verbatim>\<open>"KEY_CF1"\<close>.
\<close>

theorem sdl_getkeyname_ctrl_marker:
  "sdl_dpy_getchar readu8 (- 1) 0 [(0, Some (SDL_KEYDOWN SDLK_LEFT 0x0040))]
     = Some (- (SDLK_LEFT OR VKM_CTRL))
   \<and> sdl_dpy_getkeyname (- (SDLK_LEFT OR VKM_CTRL)) = ''KEY_CLEFT''
   \<and> sdl_dpy_getkeyname (- (SDLK_F1 OR VKM_CTRL)) = ''KEY_CF1''"
  by (simp add: sdl_dpy_getchar_def sdl_eval)

text \<open>
  Claim C9. The SDL function names the Page Up key \<^verbatim>\<open>"KEY_PGDN"\<close> and the Page Down key
  \<^verbatim>\<open>"KEY_PGUP"\<close>: the two cases of its \<^verbatim>\<open>switch\<close> carry each other's name. The codes
  are those \<^verbatim>\<open>dpy_getchar\<close> returns for the unmodified keys.
\<close>

theorem sdl_getkeyname_page_keys_swapped:
  "sdl_dpy_getchar readu8 (- 1) 0 [(0, Some (SDL_KEYDOWN SDLK_PAGEUP 0))] = Some (- SDLK_PAGEUP)
   \<and> sdl_dpy_getkeyname (- SDLK_PAGEUP) = ''KEY_PGDN''
   \<and> sdl_dpy_getchar readu8 (- 1) 0 [(0, Some (SDL_KEYDOWN SDLK_PAGEDOWN 0))] = Some (- SDLK_PAGEDOWN)
   \<and> sdl_dpy_getkeyname (- SDLK_PAGEDOWN) = ''KEY_PGUP''"
  by (simp add: sdl_dpy_getchar_def sdl_eval)

section \<open>The GLFW screen buffer\<close>

text \<open>
  The lemmas of the first two subsections describe the bodies of the drawing functions
  for any value of the static variables, also for a \<^verbatim>\<open>screen\<close> that points at an array
  of \<^verbatim>\<open>screenWidth\<close> by \<^verbatim>\<open>screenHeight\<close> cells. The third subsection is about the states
  the program reaches, where \<^verbatim>\<open>screen\<close> is the null pointer.
\<close>

subsection \<open>Writing one cell\<close>

text \<open>\<^verbatim>\<open>dpy_setattr\<close> changes the attribute register and nothing else.\<close>

lemma glfw_setattr_register:
  "currentAttr (glfw_dpy_setattr andmask ormask s) = (currentAttr s AND andmask) OR ormask"
  by (simp add: glfw_dpy_setattr_def)

lemma glfw_setattr_frame:
  "screen (glfw_dpy_setattr andmask ormask s) = screen s"
  "screenWidth (glfw_dpy_setattr andmask ormask s) = screenWidth s"
  "screenHeight (glfw_dpy_setattr andmask ormask s) = screenHeight s"
  by (simp_all add: glfw_dpy_setattr_def)

text \<open>
  \<^verbatim>\<open>dpy_writechar\<close> checks both coordinates before it computes the address: outside the
  screen it changes nothing.
\<close>

lemma glfw_writechar_outside:
  assumes "x < 0 \<or> screenWidth s \<le> x \<or> y < 0 \<or> screenHeight s \<le> y"
  shows "glfw_dpy_writechar x y ch s = Inr s"
  using assms by (auto simp add: glfw_dpy_writechar_def split: option.splits)

text \<open>
  The cell at column \<open>u\<close> of row \<open>v\<close> has the index \<open>v * w + u\<close>; for a column and a
  row of the screen the index is inside an array of \<open>w * h\<close> cells.
\<close>

lemma cell_index_in_range:
  fixes w h u v :: int
  assumes "0 \<le> u" "u < w" "0 \<le> v" "v < h"
  shows "0 \<le> v * w + u \<and> v * w + u < w * h"
proof -
  have w: "0 < w" using assms by linarith
  have "v + 1 \<le> h" using assms by simp
  then have "(v + 1) * w \<le> h * w" using w by (intro mult_right_mono) simp_all
  then have "v * w + u < w * h" using assms by (simp add: algebra_simps)
  moreover have "0 \<le> v * w + u" using assms w by simp
  ultimately show ?thesis by simp
qed

lemma glfw_writechar_inside:
  assumes scr: "screen s = Some cells" and len: "int (length cells) = screenWidth s * screenHeight s"
    and x: "0 \<le> x" "x < screenWidth s" and y: "0 \<le> y" "y < screenHeight s"
  shows "glfw_dpy_writechar x y ch s =
           Inr (s\<lparr>screen := Some (cells[nat (x + y * screenWidth s) :=
                    \<lparr>cell_c = ch, cell_attr = ucast (currentAttr s)\<rparr>])\<rparr>)"
proof -
  from cell_index_in_range [OF x y] len
  have "0 \<le> x + y * screenWidth s \<and> x + y * screenWidth s < int (length cells)"
    by (simp add: add.commute)
  then show ?thesis
    using scr x y by (simp add: glfw_dpy_writechar_def store_def)
qed

subsection \<open>Clearing a rectangle\<close>

text \<open>
  The inner loop of \<^verbatim>\<open>dpy_cleararea\<close> blanks the cells from index \<open>p\<close> to index
  \<open>p + (x2 - x)\<close>, provided they all lie in the array; the outer loop does so for each
  row from \<open>y\<close> to \<open>y2\<close>. Two rows do not overlap when the columns lie on the screen.
\<close>

lemma clear_row_result:
  assumes "x \<le> x2 \<Longrightarrow> 0 \<le> p \<and> p + (x2 - x) < int (length cells)"
  shows "\<exists>cells'. clear_row cur p x x2 cells = Inr cells' \<and> length cells' = length cells \<and>
           (\<forall>i < length cells. cells' ! i =
              (if p \<le> int i \<and> int i \<le> p + (x2 - x) then \<lparr>cell_c = 0x20, cell_attr = ucast cur\<rparr>
               else cells ! i))"
  using assms
proof (induction cur p x x2 cells rule: clear_row.induct)
  case (1 cur p x x2 cells)
  show ?case
  proof (cases "x \<le> x2")
    case False
    then show ?thesis by (auto simp add: clear_row.simps)
  next
    case True
    with "1.prems" have p: "0 \<le> p" "p + (x2 - x) < int (length cells)" by simp_all
    let ?b = "\<lparr>cell_c = 0x20, cell_attr = ucast cur\<rparr>"
    let ?cells1 = "cells[nat p := ?b]"
    from p True have st: "store cells p ?b = Inr ?cells1"
      by (simp add: store_def)
    have pre: "x + 1 \<le> x2 \<Longrightarrow> 0 \<le> p + 1 \<and> p + 1 + (x2 - (x + 1)) < int (length ?cells1)"
      using p by simp
    from "1.IH" [OF True st pre]
    obtain cells' where r: "clear_row cur (p + 1) (x + 1) x2 ?cells1 = Inr cells'"
      and l: "length cells' = length ?cells1"
      and c: "\<forall>i < length ?cells1. cells' ! i =
              (if p + 1 \<le> int i \<and> int i \<le> p + 1 + (x2 - (x + 1)) then ?b else ?cells1 ! i)"
      by blast
    have "clear_row cur p x x2 cells = Inr cells'"
      using True st r by (subst clear_row.simps) simp
    moreover have "length cells' = length cells" using l by simp
    moreover have "\<forall>i < length cells. cells' ! i =
              (if p \<le> int i \<and> int i \<le> p + (x2 - x) then ?b else cells ! i)"
    proof (intro allI impI)
      fix i assume i: "i < length cells"
      show "cells' ! i = (if p \<le> int i \<and> int i \<le> p + (x2 - x) then ?b else cells ! i)"
      proof (cases "int i = p")
        case True
        then have "nat p = i" by simp
        with c i True \<open>x \<le> x2\<close> show ?thesis by simp
      next
        case False
        then have "nat p \<noteq> i" using p by auto
        with c i False show ?thesis by auto
      qed
    qed
    ultimately show ?thesis by blast
  qed
qed

lemma row_index_iff:
  fixes w :: int
  assumes "0 \<le> u" "u < w" "0 \<le> x1" "x2 < w"
  shows "(y * w + x1 \<le> v * w + u \<and> v * w + u \<le> y * w + x2) = (v = y \<and> x1 \<le> u \<and> u \<le> x2)"
proof (cases "v = y")
  case True
  then show ?thesis by auto
next
  case False
  have w: "0 < w" using assms by linarith
  show ?thesis
  proof (cases "v < y")
    case True
    then have "v + 1 \<le> y" by simp
    then have "(v + 1) * w \<le> y * w" using w by (intro mult_right_mono) simp_all
    then have "v * w + u < y * w + x1" using assms by (simp add: algebra_simps)
    with False show ?thesis by simp
  next
    case above: False
    with False have "y + 1 \<le> v" by simp
    then have "(y + 1) * w \<le> v * w" using w by (intro mult_right_mono) simp_all
    then have "y * w + x2 < v * w + u" using assms by (simp add: algebra_simps)
    with False show ?thesis by simp
  qed
qed

lemma clear_rows_result:
  assumes "0 \<le> x1" "x2 < w" "0 \<le> y" "y2 < h" "int (length cells) = w * h"
  shows "\<exists>cells'. clear_rows cur w x1 x2 y y2 cells = Inr cells' \<and> length cells' = length cells \<and>
           (\<forall>u v. 0 \<le> u \<and> u < w \<and> 0 \<le> v \<and> v < h \<longrightarrow>
              cells' ! nat (v * w + u) =
                (if x1 \<le> u \<and> u \<le> x2 \<and> y \<le> v \<and> v \<le> y2
                 then \<lparr>cell_c = 0x20, cell_attr = ucast cur\<rparr>
                 else cells ! nat (v * w + u)))"
  using assms
proof (induction cur w x1 x2 y y2 cells rule: clear_rows.induct)
  case (1 cur w x1 x2 y y2 cells)
  show ?case
  proof (cases "y \<le> y2")
    case False
    then show ?thesis by (auto simp add: clear_rows.simps)
  next
    case True
    let ?b = "\<lparr>cell_c = 0x20, cell_attr = ucast cur\<rparr>"
    have inrow: "x1 \<le> x2 \<Longrightarrow> 0 \<le> y * w + x1 \<and> y * w + x1 + (x2 - x1) < int (length cells)"
    proof -
      assume "x1 \<le> x2"
      with "1.prems" have "0 \<le> x2" by linarith
      from cell_index_in_range [OF this \<open>x2 < w\<close> \<open>0 \<le> y\<close>, of h] True "1.prems"
      have "y * w + x2 < w * h" by simp
      moreover have "0 \<le> y * w" using \<open>0 \<le> x2\<close> "1.prems" by simp
      ultimately show ?thesis using "1.prems" by simp
    qed
    from clear_row_result [of x1 x2 "y * w + x1" cells cur, OF inrow]
    obtain cells1 where r1: "clear_row cur (y * w + x1) x1 x2 cells = Inr cells1"
      and l1: "length cells1 = length cells"
      and c1: "\<forall>i < length cells. cells1 ! i =
              (if y * w + x1 \<le> int i \<and> int i \<le> y * w + x1 + (x2 - x1) then ?b else cells ! i)"
      by blast
    have pre: "0 \<le> x1" "x2 < w" "0 \<le> y + 1" "y2 < h" "int (length cells1) = w * h"
      using "1.prems" l1 by simp_all
    from "1.IH" [OF True r1 pre]
    obtain cells' where r: "clear_rows cur w x1 x2 (y + 1) y2 cells1 = Inr cells'"
      and l: "length cells' = length cells1"
      and c: "\<forall>u v. 0 \<le> u \<and> u < w \<and> 0 \<le> v \<and> v < h \<longrightarrow>
              cells' ! nat (v * w + u) =
                (if x1 \<le> u \<and> u \<le> x2 \<and> y + 1 \<le> v \<and> v \<le> y2 then ?b
                 else cells1 ! nat (v * w + u))"
      by blast
    have "clear_rows cur w x1 x2 y y2 cells = Inr cells'"
      using True r1 r by (subst clear_rows.simps) simp
    moreover have "length cells' = length cells" using l l1 by simp
    moreover have "\<forall>u v. 0 \<le> u \<and> u < w \<and> 0 \<le> v \<and> v < h \<longrightarrow>
              cells' ! nat (v * w + u) =
                (if x1 \<le> u \<and> u \<le> x2 \<and> y \<le> v \<and> v \<le> y2 then ?b
                 else cells ! nat (v * w + u))"
    proof (intro allI impI)
      fix u v assume uv: "0 \<le> u \<and> u < w \<and> 0 \<le> v \<and> v < h"
      then have "0 \<le> v * w + u \<and> v * w + u < w * h"
        by (intro cell_index_in_range) simp_all
      with "1.prems" have ge: "0 \<le> v * w + u" and i: "nat (v * w + u) < length cells"
        by linarith+
      have ri: "(y * w + x1 \<le> v * w + u \<and> v * w + u \<le> y * w + x2) = (v = y \<and> x1 \<le> u \<and> u \<le> x2)"
        using uv "1.prems" by (intro row_index_iff) simp_all
      from c1 i ge have c1': "cells1 ! nat (v * w + u) =
          (if v = y \<and> x1 \<le> u \<and> u \<le> x2 then ?b else cells ! nat (v * w + u))"
        using ri by simp
      from c uv have "cells' ! nat (v * w + u) =
                (if x1 \<le> u \<and> u \<le> x2 \<and> y + 1 \<le> v \<and> v \<le> y2 then ?b
                 else cells1 ! nat (v * w + u))" by blast
      with c1' True
      show "cells' ! nat (v * w + u) =
                (if x1 \<le> u \<and> u \<le> x2 \<and> y \<le> v \<and> v \<le> y2 then ?b
                 else cells ! nat (v * w + u))"
        by auto
    qed
    ultimately show ?thesis by blast
  qed
qed

text \<open>
  For a rectangle that lies on the screen, \<^verbatim>\<open>dpy_cleararea\<close> blanks the cells of the
  rectangle and leaves every other cell as it was.
\<close>

lemma glfw_cleararea_inside:
  assumes scr: "screen s = Some cells" and len: "int (length cells) = screenWidth s * screenHeight s"
    and r: "0 \<le> x1" "x2 < screenWidth s" "0 \<le> y1" "y2 < screenHeight s"
  shows "\<exists>cells'. glfw_dpy_cleararea x1 y1 x2 y2 s = Inr (s\<lparr>screen := Some cells'\<rparr>)
           \<and> length cells' = length cells
           \<and> (\<forall>u v. 0 \<le> u \<and> u < screenWidth s \<and> 0 \<le> v \<and> v < screenHeight s \<longrightarrow>
                cells' ! nat (v * screenWidth s + u) =
                  (if x1 \<le> u \<and> u \<le> x2 \<and> y1 \<le> v \<and> v \<le> y2
                   then \<lparr>cell_c = 0x20, cell_attr = ucast (currentAttr s)\<rparr>
                   else cells ! nat (v * screenWidth s + u)))"
proof -
  from clear_rows_result [OF r len, of "currentAttr s"]
  obtain cells' where "clear_rows (currentAttr s) (screenWidth s) x1 x2 y1 y2 cells = Inr cells'"
    and "length cells' = length cells"
    and "\<forall>u v. 0 \<le> u \<and> u < screenWidth s \<and> 0 \<le> v \<and> v < screenHeight s \<longrightarrow>
                cells' ! nat (v * screenWidth s + u) =
                  (if x1 \<le> u \<and> u \<le> x2 \<and> y1 \<le> v \<and> v \<le> y2
                   then \<lparr>cell_c = 0x20, cell_attr = ucast (currentAttr s)\<rparr>
                   else cells ! nat (v * screenWidth s + u))"
    by blast
  then show ?thesis using scr by (auto simp add: glfw_dpy_cleararea_def)
qed

text \<open>
  \<^verbatim>\<open>dpy_clearscreen\<close> passes the whole screen and so blanks every cell, also when the
  screen has no column or no row.
\<close>

lemma glfw_clearscreen_blanks:
  assumes scr: "screen s = Some cells" and len: "int (length cells) = screenWidth s * screenHeight s"
  shows "\<exists>cells'. glfw_dpy_clearscreen s = Inr (s\<lparr>screen := Some cells'\<rparr>)
           \<and> length cells' = length cells
           \<and> (\<forall>u v. 0 \<le> u \<and> u < screenWidth s \<and> 0 \<le> v \<and> v < screenHeight s \<longrightarrow>
                cells' ! nat (v * screenWidth s + u) =
                  \<lparr>cell_c = 0x20, cell_attr = ucast (currentAttr s)\<rparr>)"
proof -
  from glfw_cleararea_inside [OF scr len, of 0 "screenWidth s - 1" 0 "screenHeight s - 1"]
  obtain cells' where r: "glfw_dpy_cleararea 0 0 (screenWidth s - 1) (screenHeight s - 1) s
        = Inr (s\<lparr>screen := Some cells'\<rparr>)"
    and l: "length cells' = length cells"
    and c: "\<forall>u v. 0 \<le> u \<and> u < screenWidth s \<and> 0 \<le> v \<and> v < screenHeight s \<longrightarrow>
                cells' ! nat (v * screenWidth s + u) =
                  (if 0 \<le> u \<and> u \<le> screenWidth s - 1 \<and> 0 \<le> v \<and> v \<le> screenHeight s - 1
                   then \<lparr>cell_c = 0x20, cell_attr = ucast (currentAttr s)\<rparr>
                   else cells ! nat (v * screenWidth s + u))"
    by auto
  from c have "\<forall>u v. 0 \<le> u \<and> u < screenWidth s \<and> 0 \<le> v \<and> v < screenHeight s \<longrightarrow>
                cells' ! nat (v * screenWidth s + u) =
                  \<lparr>cell_c = 0x20, cell_attr = ucast (currentAttr s)\<rparr>"
    by auto
  with r l show ?thesis unfolding glfw_dpy_clearscreen_def by blast
qed

text \<open>
  The body of \<^verbatim>\<open>dpy_cleararea\<close> has no check of its coordinates. Were \<^verbatim>\<open>screen\<close> to
  point at an array of 3 columns and 2 rows, which no statement of the file brings
  about, the rectangle from (0, 0) to (3, 0) would blank the first cell of the second
  row, and the rectangle from (0, 0) to (0, 2) would store outside the array.
\<close>

lemma glfw_cleararea_allocated_not_clipped:
  "glfw_dpy_cleararea 0 0 3 0
      \<lparr>currentAttr = 0, screenWidth = 3, screenHeight = 2,
         screen = Some [\<lparr>cell_c = 0x41, cell_attr = 7\<rparr>, \<lparr>cell_c = 0x42, cell_attr = 7\<rparr>,
                        \<lparr>cell_c = 0x43, cell_attr = 7\<rparr>, \<lparr>cell_c = 0x44, cell_attr = 7\<rparr>,
                        \<lparr>cell_c = 0x45, cell_attr = 7\<rparr>, \<lparr>cell_c = 0x46, cell_attr = 7\<rparr>],
         cursorx = 0, cursory = 0, cursorShown = False\<rparr>
     = Inr \<lparr>currentAttr = 0, screenWidth = 3, screenHeight = 2,
         screen = Some [\<lparr>cell_c = 0x20, cell_attr = 0\<rparr>, \<lparr>cell_c = 0x20, cell_attr = 0\<rparr>,
                        \<lparr>cell_c = 0x20, cell_attr = 0\<rparr>, \<lparr>cell_c = 0x20, cell_attr = 0\<rparr>,
                        \<lparr>cell_c = 0x45, cell_attr = 7\<rparr>, \<lparr>cell_c = 0x46, cell_attr = 7\<rparr>],
         cursorx = 0, cursory = 0, cursorShown = False\<rparr>
   \<and> glfw_dpy_cleararea 0 0 0 2
      \<lparr>currentAttr = 0, screenWidth = 3, screenHeight = 2,
         screen = Some [\<lparr>cell_c = 0x41, cell_attr = 7\<rparr>, \<lparr>cell_c = 0x42, cell_attr = 7\<rparr>,
                        \<lparr>cell_c = 0x43, cell_attr = 7\<rparr>, \<lparr>cell_c = 0x44, cell_attr = 7\<rparr>,
                        \<lparr>cell_c = 0x45, cell_attr = 7\<rparr>, \<lparr>cell_c = 0x46, cell_attr = 7\<rparr>],
         cursorx = 0, cursory = 0, cursorShown = False\<rparr>
     = Inl OutOfBounds"
  by (simp add: glfw_eval)

subsection \<open>Drawing in the states the program reaches\<close>






section \<open>Attributes in the SDL back end\<close>

text \<open>
  Claim C6. SDL's \<^verbatim>\<open>dpy_setattr\<close> updates no register: the state after
  \<^verbatim>\<open>dpy_setattr(0, 1)\<close> is the state before, and the same as after \<^verbatim>\<open>dpy_setattr(0, 2)\<close>.
  What \<^verbatim>\<open>dpy_writechar\<close> then draws is the character at its pixel position, with no
  attribute, and \<^verbatim>\<open>dpy_cleararea\<close> does nothing.
\<close>

theorem sdl_setattr_does_nothing:
  "sdl_dpy_setattr 0 1 sdl_started = sdl_started
   \<and> sdl_dpy_setattr 0 1 sdl_started = sdl_dpy_setattr 0 2 sdl_started
   \<and> sdl_dpy_writechar writeu8 3 4 0x58 = (24, 32, writeu8 0x58)
   \<and> sdl_dpy_cleararea 0 0 79 24 (sdl_dpy_setattr 0 1 sdl_started) = sdl_started"
  by (simp add: sdl_dpy_setattr_def sdl_dpy_writechar_def sdl_dpy_cleararea_def)

end
